theory Spec2Isabelle
  imports Main "HOL-Library.Sublist" "HOL-Library.AList"
begin

section \<open>Strings\<close>

text \<open>
  File names, category names and extensions are Python \<open>str\<close> values, modelled as
  \<open>string\<close>. \<open>str.lower\<close> is modelled on the ASCII letters (\<open>A\<close> to \<open>Z\<close>); every
  other character is left as it is.
\<close>

definition lower_char :: "char \<Rightarrow> char" where
  "lower_char c =
     (let n = (of_char c :: nat)
      in if 65 \<le> n \<and> n \<le> 90 then char_of (n + 32) else c)"

definition lower :: "string \<Rightarrow> string" where
  "lower s = map lower_char s"

text \<open>\<open>s.endswith(e)\<close> and \<open>s.startswith(p)\<close>.\<close>

definition endswith :: "string \<Rightarrow> string \<Rightarrow> bool" where
  "endswith s e = (length e \<le> length s \<and> drop (length s - length e) s = e)"

definition startswith :: "string \<Rightarrow> string \<Rightarrow> bool" where
  "startswith s p = (take (length p) s = p)"

section \<open>Classification (organize\_files, the tests of lines 210 and 213--214)\<close>

text \<open>
  \<open>file_extensions\<close> is a Python dict from category name to a list of extensions. Its
  iteration order is its insertion order, so it is an association list.
\<close>

type_synonym rules = "(string \<times> string list) list"

text \<open>\<open>filename.lower().endswith(ext)\<close>: only the file name is lowercased.\<close>

definition ext_matches :: "string \<Rightarrow> string \<Rightarrow> bool" where
  "ext_matches filename ext = endswith (lower filename) ext"

text \<open>\<open>any(filename.lower().endswith(ext) for ext in extensions)\<close>\<close>

definition any_ext :: "string \<Rightarrow> string list \<Rightarrow> bool" where
  "any_ext filename extensions = list_ex (ext_matches filename) extensions"

text \<open>\<open>filename.lower() in ignore_list or filename.startswith('.')\<close>\<close>

definition skipped :: "string list \<Rightarrow> string \<Rightarrow> bool" where
  "skipped ignore_list filename =
     (lower filename \<in> set ignore_list \<or> startswith filename ''.'')"

text \<open>
  The loop \<open>for folder, extensions in file_extensions.items()\<close> as far as it decides:
  it stops at the first folder one of whose extensions matches.
\<close>

fun first_match :: "string \<Rightarrow> rules \<Rightarrow> string option" where
  "first_match filename [] = None"
| "first_match filename ((folder, extensions) # rest) =
     (if any_ext filename extensions then Some folder else first_match filename rest)"

datatype classification = Ignored | Matched string | Unmatched

definition classify :: "string \<Rightarrow> rules \<Rightarrow> string list \<Rightarrow> classification" where
  "classify filename file_extensions ignore_list =
     (if skipped ignore_list filename then Ignored
      else case first_match filename file_extensions of
             Some folder \<Rightarrow> Matched folder
           | None \<Rightarrow> Unmatched)"

section \<open>The file system\<close>

text \<open>
  The calls into \<open>os\<close>, \<open>os.path\<close> and \<open>shutil\<close> act on a file system outside the
  program. It is modelled as a finite table from absolute paths to nodes. A path is the
  list of its components, so \<open>os.path.join(d, name)\<close> is \<open>d @ [name]\<close> and names are
  single components (no separator, not \<open>.\<close> or \<open>..\<close>). The root \<open>[]\<close> is always a
  directory. The calls follow their POSIX behaviour on regular files and directories.
\<close>

type_synonym path = "string list"

datatype node = File string | Dir

type_synonym filesystem = "(path \<times> node) list"

datatype oserror =
    FileNotFoundError | FileExistsError | NotADirectoryError | IsADirectoryError
  | PermissionError | ShutilError

definition node_at :: "filesystem \<Rightarrow> path \<Rightarrow> node option" where
  "node_at fs p = (if p = [] then Some Dir else map_of fs p)"

text \<open>\<open>os.path.exists\<close>, \<open>os.path.isfile\<close>, \<open>os.path.isdir\<close>, \<open>os.path.basename\<close>\<close>

definition path_exists :: "filesystem \<Rightarrow> path \<Rightarrow> bool" where
  "path_exists fs p = (node_at fs p \<noteq> None)"

definition isfile :: "filesystem \<Rightarrow> path \<Rightarrow> bool" where
  "isfile fs p = (case node_at fs p of Some (File c) \<Rightarrow> True | _ \<Rightarrow> False)"

definition isdir :: "filesystem \<Rightarrow> path \<Rightarrow> bool" where
  "isdir fs p = (node_at fs p = Some Dir)"

definition basename :: "path \<Rightarrow> string" where
  "basename p = (if p = [] then [] else last p)"

text \<open>
  \<open>os.listdir(d)\<close>: the names of the entries directly under \<open>d\<close>, each once, in the
  order of the table; it raises when \<open>d\<close> is missing or is not a directory.
\<close>

definition listdir :: "filesystem \<Rightarrow> path \<Rightarrow> oserror + string list" where
  "listdir fs d =
     (case node_at fs d of
        None \<Rightarrow> Inl FileNotFoundError
      | Some (File c) \<Rightarrow> Inl NotADirectoryError
      | Some Dir \<Rightarrow>
          Inr (remdups (map (\<lambda>(p, n). last p)
                 (filter (\<lambda>(p, n). p \<noteq> [] \<and> butlast p = d) fs))))"

text \<open>\<open>os.mkdir(p)\<close>: \<open>p\<close> must be new and its parent a directory.\<close>

definition mkdir :: "filesystem \<Rightarrow> path \<Rightarrow> oserror + filesystem" where
  "mkdir fs p =
     (if path_exists fs p then Inl FileExistsError
      else case node_at fs (butlast p) of
             None \<Rightarrow> Inl FileNotFoundError
           | Some (File c) \<Rightarrow> Inl NotADirectoryError
           | Some Dir \<Rightarrow> Inr (AList.update p Dir fs))"

text \<open>
  \<open>os.makedirs(p)\<close>: creates the missing ancestors first, then \<open>p\<close>. The result is the
  exception raised, if any, and the file system as it is left (ancestors created before
  a failure stay).
\<close>

function makedirs :: "filesystem \<Rightarrow> path \<Rightarrow> oserror option \<times> filesystem" where
  "makedirs fs p =
     (let (e, fs1) =
            (if p \<noteq> [] \<and> \<not> path_exists fs (butlast p) then makedirs fs (butlast p)
             else (None, fs))
      in if e \<noteq> None \<and> e \<noteq> Some FileExistsError then (e, fs1)
         else case mkdir fs1 p of Inl e' \<Rightarrow> (Some e', fs1) | Inr fs2 \<Rightarrow> (None, fs2))"
  by pat_completeness auto
termination
  by (relation "measure (\<lambda>(fs, p). length p)") auto

text \<open>
  \<open>os.rename(src, dst)\<close> as \<open>shutil.move\<close> uses it, together with the copy that
  \<open>shutil.move\<close> falls back to: a regular file replaces a regular file at \<open>dst\<close>; a
  directory moves with everything below it to a \<open>dst\<close> that does not exist yet.
\<close>

definition rebase :: "path \<Rightarrow> path \<Rightarrow> path \<times> node \<Rightarrow> path \<times> node" where
  "rebase src dst e =
     (if prefix src (fst e) then (dst @ drop (length src) (fst e), snd e) else e)"

definition os_rename :: "filesystem \<Rightarrow> path \<Rightarrow> path \<Rightarrow> oserror + filesystem" where
  "os_rename fs src dst =
     (case node_at fs src of
        None \<Rightarrow> Inl FileNotFoundError
      | Some n \<Rightarrow>
          if src = [] \<or> dst = [] then Inl PermissionError
          else if src = dst then Inr fs
          else case node_at fs (butlast dst) of
                 None \<Rightarrow> Inl FileNotFoundError
               | Some (File c) \<Rightarrow> Inl NotADirectoryError
               | Some Dir \<Rightarrow>
                   (case n of
                      File c \<Rightarrow>
                        if isdir fs dst then Inl IsADirectoryError
                        else Inr (AList.update dst (File c) (AList.delete src fs))
                    | Dir \<Rightarrow>
                        if path_exists fs dst then Inl FileExistsError
                        else if prefix src dst then Inl ShutilError
                        else Inr (map (rebase src dst) fs)))"

text \<open>
  \<open>shutil.move(src, dst)\<close>: when \<open>dst\<close> is a directory the source is moved into it
  under its own name, unless that name is taken there.
\<close>

definition shutil_move :: "filesystem \<Rightarrow> path \<Rightarrow> path \<Rightarrow> oserror + filesystem" where
  "shutil_move fs src dst =
     (if isdir fs dst then
        (if src = dst then Inr fs
         else if path_exists fs (dst @ [basename src]) then Inl ShutilError
         else os_rename fs src (dst @ [basename src]))
      else os_rename fs src dst)"

section \<open>The program state\<close>

text \<open>
  The lines written to the output widget and to the log, by the statement that writes
  them. The status bar, the list box and the state of the undo button are not modelled.
\<close>

datatype line =
    Created_folder string
  | Would_move string string
  | Error_moving string oserror
  | No_category_found string
  | Total_files_organized nat
  | Organized_into_categories
  | Category_files string nat
  | Undoing_last_operation
  | Error_undoing string oserror
  | Successfully_reverted nat

datatype level = INFO | WARNING | ERROR

datatype message =
    Moved string string
  | Error_moving_file string oserror
  | Undid_move path path
  | Undo_failed_not_found path
  | Undo_error path path oserror

text \<open>The content of \<open>config.json\<close>: the two fields the program reads and writes.\<close>

record document =
  categories :: rules
  ignore :: "string list"

type_synonym batch = "(path \<times> path) list"

record app =
  file_extensions :: rules
  ignore_list :: "string list"
  config_file :: document
  selected_directory :: "path option"
  dry_run_var :: bool
  undo_stack :: "batch list"
  fs :: filesystem
  output_text :: "line list"
  log :: "(level \<times> message) list"

text \<open>
  What a callback ends with: an early return (each guard has its own name) or an
  exception that nothing catches.
\<close>

datatype error =
    NoDirectorySelected
  | NothingToUndo
  | DuplicateCategory
  | NoInput
  | Uncaught oserror

section \<open>Configuration (lines 13--51 and add\_category)\<close>

definition default_config :: document where
  "default_config = \<lparr>
     categories =
       [(''Images'', [''.jpg'', ''.jpeg'', ''.png'', ''.gif'', ''.bmp'', ''.tiff'', ''.svg'', ''.webp'']),
        (''Documents'', [''.pdf'', ''.docx'', ''.txt'', ''.xlsx'', ''.pptx'', ''.odt'', ''.rtf'', ''.csv'']),
        (''Audio'', [''.mp3'', ''.wav'', ''.aac'', ''.flac'', ''.ogg'', ''.m4a'']),
        (''Videos'', [''.mp4'', ''.avi'', ''.mkv'', ''.mov'', ''.wmv'', ''.flv'', ''.webm'']),
        (''Archives'', [''.zip'', ''.rar'', ''.tar'', ''.gz'', ''.7z'', ''.bz2'']),
        (''Scripts'', [''.py'', ''.js'', ''.sh'', ''.bat'', ''.rb'', ''.php'', ''.html'', ''.css'']),
        (''Executables'', [''.exe'', ''.msi'', ''.dmg'', ''.app'']),
        (''Fonts'', [''.ttf'', ''.otf'', ''.woff'', ''.woff2'']),
        (''Torrents'', [''.torrent''])],
     ignore = [''desktop.ini'', ''Thumbs.db'', ''.DS_Store''] \<rparr>"

text \<open>
  Start-up (lines 36--44): a missing \<open>config.json\<close> is written with the defaults, then
  the file is read; the ignore list is lowercased as it is read.
\<close>

definition load_config :: "document option \<Rightarrow> app \<Rightarrow> app" where
  "load_config file st =
     (let config = (case file of None \<Rightarrow> default_config | Some doc \<Rightarrow> doc)
      in st\<lparr>config_file := config,
            file_extensions := categories config,
            ignore_list := map lower (ignore config)\<rparr>)"

definition save_config :: "app \<Rightarrow> app" where
  "save_config st =
     st\<lparr>config_file := \<lparr>categories = file_extensions st, ignore = ignore_list st\<rparr>\<rparr>"


section \<open>organize\_files\<close>

text \<open>The variables of the loops of \<open>organize_files\<close>.\<close>

record run =
  cur_fs :: filesystem
  cur_out :: "line list"
  cur_log :: "(level \<times> message) list"
  current_batch :: batch
  organized_counts :: "(string \<times> nat) list"

text \<open>Lines 197--202: the folder of each category is created unless its path exists.\<close>

fun create_folders ::
  "bool \<Rightarrow> path \<Rightarrow> string list \<Rightarrow> filesystem \<Rightarrow> line list \<Rightarrow>
     oserror option \<times> filesystem \<times> line list" where
  "create_folders dry_run d [] fs0 out = (None, fs0, out)"
| "create_folders dry_run d (folder # rest) fs0 out =
     (if \<not> path_exists fs0 (d @ [folder]) then
        (if \<not> dry_run then
           (case makedirs fs0 (d @ [folder]) of
              (Some e, fs1) \<Rightarrow> (Some e, fs1, out)
            | (None, fs1) \<Rightarrow> create_folders dry_run d rest fs1 (out @ [Created_folder folder]))
         else create_folders dry_run d rest fs0 (out @ [Created_folder folder]))
      else create_folders dry_run d rest fs0 out)"

text \<open>
  Lines 213--229, the loop over the categories for one file. The result is the flag
  \<open>moved\<close> and the variables. After a failed move the \<open>continue\<close> of line 226 goes
  on with the next category.
\<close>

fun try_folders :: "bool \<Rightarrow> path \<Rightarrow> string \<Rightarrow> rules \<Rightarrow> run \<Rightarrow> bool \<times> run" where
  "try_folders dry_run d filename [] r = (False, r)"
| "try_folders dry_run d filename ((folder, extensions) # rest) r =
     (if any_ext filename extensions then
        (if dry_run then
           (True, r\<lparr>cur_out := cur_out r @ [Would_move filename folder],
                    organized_counts := AList.map_entry folder Suc (organized_counts r)\<rparr>)
         else
           (case shutil_move (cur_fs r) (d @ [filename]) (d @ [folder, filename]) of
              Inr fs1 \<Rightarrow>
                (True, r\<lparr>cur_fs := fs1,
                         current_batch := current_batch r @ [(d @ [filename], d @ [folder, filename])],
                         cur_log := cur_log r @ [(INFO, Moved filename folder)],
                         organized_counts := AList.map_entry folder Suc (organized_counts r)\<rparr>)
            | Inl e \<Rightarrow>
                try_folders dry_run d filename rest
                  (r\<lparr>cur_log := cur_log r @ [(ERROR, Error_moving_file filename e)],
                     cur_out := cur_out r @ [Error_moving filename e]\<rparr>)))
      else try_folders dry_run d filename rest r)"

text \<open>Lines 207--233, the body of the loop over the listed names.\<close>

definition process_file :: "bool \<Rightarrow> path \<Rightarrow> rules \<Rightarrow> string list \<Rightarrow> run \<Rightarrow> string \<Rightarrow> run" where
  "process_file dry_run d file_exts ignored r filename =
     (if isfile (cur_fs r) (d @ [filename]) then
        (if skipped ignored filename then r
         else case try_folders dry_run d filename file_exts r of
                (moved, r1) \<Rightarrow>
                  if \<not> moved then r1\<lparr>cur_out := cur_out r1 @ [No_category_found filename]\<rparr>
                  else r1)
      else r)"

text \<open>Lines 236--244, the summary.\<close>

definition summary :: "(string \<times> nat) list \<Rightarrow> line list" where
  "summary counts =
     (let organized_count = sum_list (map snd counts)
      in if organized_count = 0 then [Total_files_organized organized_count]
         else [Total_files_organized organized_count, Organized_into_categories] @
              map (\<lambda>(folder, count). Category_files folder count)
                (filter (\<lambda>(folder, count). count > 0) counts))"

text \<open>
  Lines 191--233: the two loops. The result is the exception that nothing catches, if
  one is raised (by \<open>os.makedirs\<close> or \<open>os.listdir\<close>), and the variables as they are
  then; \<open>organized_counts\<close> is assigned after the folders are created.
\<close>

definition organize_run :: "app \<Rightarrow> path \<Rightarrow> oserror option \<times> run" where
  "organize_run st d =
     (case create_folders (dry_run_var st) d (map fst (file_extensions st)) (fs st) [] of
        (Some e, fs1, out1) \<Rightarrow>
          (Some e, \<lparr>cur_fs = fs1, cur_out = out1, cur_log = log st, current_batch = [],
                    organized_counts = []\<rparr>)
      | (None, fs1, out1) \<Rightarrow>
          (let r0 = \<lparr>cur_fs = fs1, cur_out = out1, cur_log = log st, current_batch = [],
                     organized_counts =
                       map (\<lambda>folder. (folder, 0)) (map fst (file_extensions st))\<rparr>
           in case listdir fs1 d of
                Inl e \<Rightarrow> (Some e, r0)
              | Inr names \<Rightarrow>
                  (None,
                   foldl (process_file (dry_run_var st) d (file_extensions st) (ignore_list st))
                     r0 names)))"

text \<open>
  \<open>organize_files\<close>: the guard of line 187, the loops, the summary and lines 246--247
  (\<open>if current_batch: undo_stack.append(current_batch)\<close>). The output widget is
  cleared at line 192.
\<close>

definition organize_files :: "app \<Rightarrow> error option \<times> app" where
  "organize_files st =
     (case selected_directory st of
        None \<Rightarrow> (Some NoDirectorySelected, st)
      | Some d \<Rightarrow>
          (case organize_run st d of
             (Some e, r) \<Rightarrow>
               (Some (Uncaught e),
                st\<lparr>fs := cur_fs r, output_text := cur_out r, log := cur_log r\<rparr>)
           | (None, r) \<Rightarrow>
               (None,
                st\<lparr>fs := cur_fs r,
                   output_text := cur_out r @ summary (organized_counts r),
                   log := cur_log r,
                   undo_stack :=
                     (if current_batch r \<noteq> [] then undo_stack st @ [current_batch r]
                      else undo_stack st)\<rparr>)))"

section \<open>undo\_changes\<close>

text \<open>Lines 168--178, the body of the loop over the records of the batch.\<close>

definition undo_step :: "nat \<times> app \<Rightarrow> path \<times> path \<Rightarrow> nat \<times> app" where
  "undo_step u rec =
     (case (u, rec) of ((undo_count, st), (src, dest)) \<Rightarrow>
        if path_exists (fs st) dest then
          (case shutil_move (fs st) dest src of
             Inr fs1 \<Rightarrow>
               (Suc undo_count, st\<lparr>fs := fs1, log := log st @ [(INFO, Undid_move dest src)]\<rparr>)
           | Inl e \<Rightarrow>
               (undo_count,
                st\<lparr>log := log st @ [(ERROR, Undo_error dest src e)],
                   output_text := output_text st @ [Error_undoing (basename dest) e]\<rparr>))
        else (undo_count, st\<lparr>log := log st @ [(WARNING, Undo_failed_not_found dest)]\<rparr>))"

definition undo_changes :: "app \<Rightarrow> error option \<times> app" where
  "undo_changes st =
     (if undo_stack st = [] then (Some NothingToUndo, st)
      else
        (case foldl undo_step
                (0, st\<lparr>undo_stack := butlast (undo_stack st),
                       output_text := output_text st @ [Undoing_last_operation]\<rparr>)
                (last (undo_stack st)) of
           (undo_count, st1) \<Rightarrow>
             (None, st1\<lparr>output_text := output_text st1 @ [Successfully_reverted undo_count]\<rparr>)))"

section \<open>Start-up and example states\<close>

text \<open>
  The state after the top level of the module has run (lines 28--44): no directory is
  selected, the undo stack is empty, the configuration is loaded.
\<close>

definition startup :: "document option \<Rightarrow> filesystem \<Rightarrow> app" where
  "startup file fs0 =
     load_config file
       \<lparr>file_extensions = [], ignore_list = [], config_file = default_config,
        selected_directory = None, dry_run_var = False, undo_stack = [],
        fs = fs0, output_text = [], log = []\<rparr>"

text \<open>
  A directory \<open>/d\<close> holding \<open>a.jpg\<close>, \<open>b.txt\<close>, \<open>c.xyz\<close> and \<open>Thumbs.db\<close>, selected, with
  the default configuration.
\<close>

definition example_fs :: filesystem where
  "example_fs =
     [([''d''], Dir), ([''d'', ''a.jpg''], File ''A''), ([''d'', ''b.txt''], File ''B''),
      ([''d'', ''c.xyz''], File ''C''), ([''d'', ''Thumbs.db''], File ''T'')]"

definition example_app :: app where
  "example_app = (startup None example_fs)\<lparr>selected_directory := Some [''d'']\<rparr>"

text \<open>
  Two directories \<open>/d\<close> and \<open>/e\<close> with one picture each and one category; \<open>/d\<close> is
  selected.
\<close>

definition two_dirs_app :: app where
  "two_dirs_app =
     (startup (Some \<lparr>categories = [(''Images'', [''.jpg''])], ignore = []\<rparr>)
        [([''d''], Dir), ([''d'', ''a.jpg''], File ''A''),
         ([''e''], Dir), ([''e'', ''b.jpg''], File ''B'')])
     \<lparr>selected_directory := Some [''d'']\<rparr>"

text \<open>
  Two categories share the extension \<open>.txt\<close>; \<open>/d\<close> holds \<open>x.txt\<close> and a regular file
  named \<open>Docs\<close>, the name of the first category.
\<close>

definition overlap_app :: app where
  "overlap_app =
     (startup (Some \<lparr>categories = [(''Docs'', [''.txt'']), (''Text'', [''.txt''])], ignore = []\<rparr>)
        [([''d''], Dir), ([''d'', ''Docs''], File ''D''), ([''d'', ''x.txt''], File ''X'')])
     \<lparr>selected_directory := Some [''d'']\<rparr>"


text \<open>The selected directory \<open>/d\<close> does not exist.\<close>

definition missing_dir_app :: app where
  "missing_dir_app =
     (startup (Some \<lparr>categories = [(''Images'', [''.jpg''])], ignore = []\<rparr>) [])
     \<lparr>selected_directory := Some [''d'']\<rparr>"

section \<open>The invariant of a batch\<close>


section \<open>Properties of the classification\<close>










text \<open>
  Claim C7 (the code departs from it). The test of line 214 lowercases the file name
  only: the extension \<open>.JPG\<close>, a suffix of \<open>photo.jpg\<close> when case is ignored, does not
  match it, and the file is left unmatched.
\<close>

theorem ext_matches_uppercase_extension:
  "\<not> ext_matches ''photo.jpg'' ''.JPG'' \<and> suffix (lower ''.JPG'') (lower ''photo.jpg'') \<and>
   classify ''photo.jpg'' [(''Images'', [''.JPG''])] [] = Unmatched"
  by code_simp

section \<open>Properties of the configuration\<close>



text \<open>
  Claim C9, as stated, fails: the default document itself does not come back from
  loading and saving, since \<open>Thumbs.db\<close> and \<open>.DS_Store\<close> are saved lowercased.
\<close>

theorem load_save_default_counterexample:
  "config_file (save_config (load_config (Some default_config) (startup None [])))
     \<noteq> default_config"
  by code_simp

text \<open>
  Claim C9, amended. Loading a document and saving gives the document with the same
  categories and with each entry of the ignore list lowercased; a document whose ignore
  entries are lowercase already comes back unchanged.
\<close>

theorem load_save_lowercases_ignore:
  "config_file (save_config (load_config (Some doc) st))
     = doc\<lparr>ignore := map lower (ignore doc)\<rparr> \<and>
   (map lower (ignore doc) = ignore doc \<longrightarrow>
      config_file (save_config (load_config (Some doc) st)) = doc)"
  by (simp add: save_config_def load_config_def)

theorem load_save_lowercases_ignore_witness:
  "map lower (ignore \<lparr>categories = [(''Images'', [''.jpg''])], ignore = [''desktop.ini'']\<rparr>)
     = ignore \<lparr>categories = [(''Images'', [''.jpg''])], ignore = [''desktop.ini'']\<rparr> \<and>
   config_file (save_config (load_config
       (Some \<lparr>categories = [(''Images'', [''.jpg''])], ignore = [''desktop.ini'']\<rparr>)
       (startup None [])))
     = \<lparr>categories = [(''Images'', [''.jpg''])], ignore = [''desktop.ini'']\<rparr>"
proof -
  let ?doc = "\<lparr>categories = [(''Images'', [''.jpg''])], ignore = [''desktop.ini'']\<rparr>"
  have h: "map lower (ignore ?doc) = ignore ?doc" by code_simp
  from h load_save_lowercases_ignore [of ?doc "startup None []", THEN conjunct2, rule_format, OF h]
  show ?thesis by (rule conjI)
qed

section \<open>Properties of the undo stack\<close>

lemma undo_step_stack: "undo_stack (snd (undo_step u rec)) = undo_stack (snd u)"
  by (cases u; cases rec) (simp add: undo_step_def split: sum.split)

lemma foldl_undo_step_stack: "undo_stack (snd (foldl undo_step u b)) = undo_stack (snd u)"
  by (induction b arbitrary: u) (simp_all add: undo_step_stack)

lemma undo_changes_stack:
  "undo_stack st \<noteq> [] \<Longrightarrow>
   fst (undo_changes st) = None \<and> undo_stack (snd (undo_changes st)) = butlast (undo_stack st)"
proof -
  assume ne: "undo_stack st \<noteq> []"
  let ?st0 = "st\<lparr>undo_stack := butlast (undo_stack st),
                 output_text := output_text st @ [Undoing_last_operation]\<rparr>"
  obtain n st1 where f: "foldl undo_step (0, ?st0) (last (undo_stack st)) = (n, st1)"
    by (cases "foldl undo_step (0, ?st0) (last (undo_stack st))")
  have "undo_stack st1 = butlast (undo_stack st)"
    using foldl_undo_step_stack [of "(0, ?st0)" "last (undo_stack st)"] f by simp
  with ne f show ?thesis by (simp add: undo_changes_def)
qed

text \<open>
  Claim C6. With an empty stack \<open>undo_changes\<close> returns at line 162, named
  \<open>NothingToUndo\<close> here, and the state (the file system included) is as before. With a
  batch \<open>b\<close> on top, the call completes and \<open>b\<close> is off the stack afterwards, whatever
  the file system is and however many of its moves fail. When \<open>b\<close> was the only batch,
  a second call finds nothing to undo.
\<close>

theorem undo_consumes_batch:
  "(undo_stack st = [] \<longrightarrow> undo_changes st = (Some NothingToUndo, st)) \<and>
   (undo_stack st = bs @ [b] \<longrightarrow>
      fst (undo_changes st) = None \<and> undo_stack (snd (undo_changes st)) = bs) \<and>
   (undo_stack st = [b] \<longrightarrow>
      undo_changes (snd (undo_changes st)) = (Some NothingToUndo, snd (undo_changes st)))"
proof -
  have 1: "undo_stack st = [] \<longrightarrow> undo_changes st = (Some NothingToUndo, st)"
    by (simp add: undo_changes_def)
  have 2: "undo_stack st = bs @ [b] \<longrightarrow>
      fst (undo_changes st) = None \<and> undo_stack (snd (undo_changes st)) = bs"
    using undo_changes_stack [of st] by auto
  have 3: "undo_stack st = [b] \<longrightarrow>
      undo_changes (snd (undo_changes st)) = (Some NothingToUndo, snd (undo_changes st))"
    using undo_changes_stack [of st] by (auto simp: undo_changes_def)
  from 1 2 3 show ?thesis by blast
qed

theorem undo_consumes_batch_witness:
  "undo_stack (snd (organize_files example_app)) =
     [[([''d'', ''a.jpg''], [''d'', ''Images'', ''a.jpg'']),
       ([''d'', ''b.txt''], [''d'', ''Documents'', ''b.txt''])]] \<and>
   fst (undo_changes (snd (organize_files example_app))) = None \<and>
   undo_stack (snd (undo_changes (snd (organize_files example_app)))) = [] \<and>
   undo_changes (snd (undo_changes (snd (organize_files example_app)))) =
     (Some NothingToUndo, snd (undo_changes (snd (organize_files example_app))))"
proof -
  let ?b = "[([''d'', ''a.jpg''], [''d'', ''Images'', ''a.jpg'']),
            ([''d'', ''b.txt''], [''d'', ''Documents'', ''b.txt''])]"
  have h: "undo_stack (snd (organize_files example_app)) = [?b]"
    by code_simp
  then have h': "undo_stack (snd (organize_files example_app)) = [] @ [?b]"
    by simp
  note w = undo_consumes_batch [of "snd (organize_files example_app)" "[]" ?b]
  from w h' have 2: "fst (undo_changes (snd (organize_files example_app))) = None \<and>
      undo_stack (snd (undo_changes (snd (organize_files example_app)))) = []"
    by blast
  from w h have 3: "undo_changes (snd (undo_changes (snd (organize_files example_app)))) =
     (Some NothingToUndo, snd (undo_changes (snd (organize_files example_app))))"
    by blast
  from h 2 3 show ?thesis by blast
qed

text \<open>
  Claim C5, as stated, fails: after organizing \<open>/d\<close> and then \<open>/e\<close> the stack holds both
  batches, and two calls of \<open>undo_changes\<close> bring both files back, the older batch
  included.
\<close>

theorem undo_stack_two_batches_counterexample:
  "undo_stack (snd (organize_files
      ((snd (organize_files two_dirs_app))\<lparr>selected_directory := Some [''e'']\<rparr>))) =
     [[([''d'', ''a.jpg''], [''d'', ''Images'', ''a.jpg''])],
      [([''e'', ''b.jpg''], [''e'', ''Images'', ''b.jpg''])]] \<and>
   fst (undo_changes (snd (undo_changes (snd (organize_files
      ((snd (organize_files two_dirs_app))\<lparr>selected_directory := Some [''e'']\<rparr>)))))) = None \<and>
   map fst (fs (snd (undo_changes (snd (undo_changes (snd (organize_files
      ((snd (organize_files two_dirs_app))\<lparr>selected_directory := Some [''e'']\<rparr>)))))))) =
     [[''d''], [''e''], [''d'', ''Images''], [''e'', ''Images''],
      [''e'', ''b.jpg''], [''d'', ''a.jpg'']]"
  by code_simp

text \<open>
  Claim C5, amended. The ledger is a stack. A run of \<open>organize_files\<close> that completes
  pushes its batch on top of the batches held, which stay, and pushes nothing when the
  batch is empty; a run that ends early leaves the stack as it was. \<open>undo_changes\<close>
  takes the batch on top off the stack and keeps the ones below.
\<close>

theorem organize_pushes_batch:
  "(selected_directory st = Some d \<and> fst (organize_run st d) = None \<longrightarrow>
      undo_stack (snd (organize_files st)) =
        (if current_batch (snd (organize_run st d)) = [] then undo_stack st
         else undo_stack st @ [current_batch (snd (organize_run st d))])) \<and>
   (fst (organize_files st) \<noteq> None \<longrightarrow> undo_stack (snd (organize_files st)) = undo_stack st) \<and>
   (undo_stack st = bs @ [b] \<longrightarrow> undo_stack (snd (undo_changes st)) = bs)"
proof -
  have 1: "selected_directory st = Some d \<and> fst (organize_run st d) = None \<longrightarrow>
      undo_stack (snd (organize_files st)) =
        (if current_batch (snd (organize_run st d)) = [] then undo_stack st
         else undo_stack st @ [current_batch (snd (organize_run st d))])"
    by (cases "organize_run st d") (auto simp: organize_files_def)
  have 2: "fst (organize_files st) \<noteq> None \<longrightarrow>
      undo_stack (snd (organize_files st)) = undo_stack st"
    by (auto simp: organize_files_def split: option.splits prod.splits)
  have 3: "undo_stack st = bs @ [b] \<longrightarrow> undo_stack (snd (undo_changes st)) = bs"
    using undo_changes_stack [of st] by auto
  from 1 2 3 show ?thesis by blast
qed

theorem organize_pushes_batch_witness:
  "(selected_directory
      ((snd (organize_files two_dirs_app))\<lparr>selected_directory := Some [''e'']\<rparr>) = Some [''e''] \<and>
    fst (organize_run
      ((snd (organize_files two_dirs_app))\<lparr>selected_directory := Some [''e'']\<rparr>) [''e'']) = None) \<and>
   undo_stack (snd (organize_files
      ((snd (organize_files two_dirs_app))\<lparr>selected_directory := Some [''e'']\<rparr>))) =
     (if current_batch (snd (organize_run
           ((snd (organize_files two_dirs_app))\<lparr>selected_directory := Some [''e'']\<rparr>) [''e''])) = []
      then undo_stack ((snd (organize_files two_dirs_app))\<lparr>selected_directory := Some [''e'']\<rparr>)
      else undo_stack ((snd (organize_files two_dirs_app))\<lparr>selected_directory := Some [''e'']\<rparr>) @
           [current_batch (snd (organize_run
              ((snd (organize_files two_dirs_app))\<lparr>selected_directory := Some [''e'']\<rparr>) [''e'']))])"
proof -
  let ?st = "(snd (organize_files two_dirs_app))\<lparr>selected_directory := Some [''e'']\<rparr>"
  have h: "selected_directory ?st = Some [''e''] \<and> fst (organize_run ?st [''e'']) = None"
    by code_simp
  from h organize_pushes_batch [of ?st "[''e'']", THEN conjunct1, rule_format, OF h]
  show ?thesis by (rule conjI)
qed

section \<open>Properties of the directory check\<close>

lemma create_folders_dry:
  "fst (create_folders True d cs fs0 out) = None \<and>
   fst (snd (create_folders True d cs fs0 out)) = fs0"
  by (induction cs arbitrary: out) simp_all

lemma listdir_not_dir: "\<not> isdir fs0 d \<Longrightarrow> \<exists>e. listdir fs0 d = Inl e"
  by (auto simp: listdir_def isdir_def split: option.split node.split)

text \<open>
  Claim C10, as stated, fails: with \<open>/d\<close> selected and missing, a real run does not
  fail; it completes, and it has created \<open>/d\<close> and \<open>/d/Images\<close>.
\<close>

theorem organize_missing_dir_counterexample:
  "\<not> path_exists (fs missing_dir_app) [''d''] \<and> \<not> dry_run_var missing_dir_app \<and>
   selected_directory missing_dir_app = Some [''d''] \<and>
   fst (organize_files missing_dir_app) = None \<and>
   fs (snd (organize_files missing_dir_app)) = [([''d''], Dir), ([''d'', ''Images''], Dir)]"
  by code_simp

text \<open>
  Claim C10, amended. \<open>organize_files\<close> checks that a directory is selected before
  anything else: with none selected it returns at line 189, named
  \<open>NoDirectorySelected\<close> here, and the whole state (file system, output, undo stack) is
  as before. It does not check that the selected directory exists. In a dry run on a
  directory that is missing (or is not a directory) the listing of line 206 raises,
  nothing catches it, and the file system and the undo stack are as before.
\<close>

theorem organize_requires_selection:
  "(selected_directory st = None \<longrightarrow> organize_files st = (Some NoDirectorySelected, st)) \<and>
   (selected_directory st = Some d \<and> dry_run_var st \<and> \<not> isdir (fs st) d \<longrightarrow>
      (\<exists>e. fst (organize_files st) = Some (Uncaught e)) \<and>
      fs (snd (organize_files st)) = fs st \<and>
      undo_stack (snd (organize_files st)) = undo_stack st)"
proof -
  have 1: "selected_directory st = None \<longrightarrow> organize_files st = (Some NoDirectorySelected, st)"
    by (simp add: organize_files_def)
  have 2: "(\<exists>e. fst (organize_files st) = Some (Uncaught e)) \<and>
      fs (snd (organize_files st)) = fs st \<and>
      undo_stack (snd (organize_files st)) = undo_stack st"
    if sel: "selected_directory st = Some d" and dry: "dry_run_var st" and nd: "\<not> isdir (fs st) d"
  proof -
    obtain e1 fs1 out1 where
      cf: "create_folders True d (map fst (file_extensions st)) (fs st) [] = (e1, fs1, out1)"
      by (cases "create_folders True d (map fst (file_extensions st)) (fs st) []")
    with create_folders_dry [of d "map fst (file_extensions st)" "fs st" "[]"]
    have e1: "e1 = None" and fs1: "fs1 = fs st" by simp_all
    from nd obtain e where ld: "listdir (fs st) d = Inl e" using listdir_not_dir by blast
    from sel dry cf e1 fs1 ld show ?thesis
      by (simp add: organize_files_def organize_run_def)
  qed
  from 1 2 show ?thesis by blast
qed

theorem organize_requires_selection_witness:
  "(selected_directory (startup None example_fs) = None \<and>
    organize_files (startup None example_fs)
      = (Some NoDirectorySelected, startup None example_fs)) \<and>
   ((selected_directory (missing_dir_app\<lparr>dry_run_var := True\<rparr>) = Some [''d''] \<and>
     dry_run_var (missing_dir_app\<lparr>dry_run_var := True\<rparr>) \<and>
     \<not> isdir (fs (missing_dir_app\<lparr>dry_run_var := True\<rparr>)) [''d'']) \<and>
    (\<exists>e. fst (organize_files (missing_dir_app\<lparr>dry_run_var := True\<rparr>)) = Some (Uncaught e)) \<and>
    fs (snd (organize_files (missing_dir_app\<lparr>dry_run_var := True\<rparr>)))
      = fs (missing_dir_app\<lparr>dry_run_var := True\<rparr>) \<and>
    undo_stack (snd (organize_files (missing_dir_app\<lparr>dry_run_var := True\<rparr>)))
      = undo_stack (missing_dir_app\<lparr>dry_run_var := True\<rparr>))"
proof -
  have h1: "selected_directory (startup None example_fs) = None"
    by (simp add: startup_def load_config_def)
  have h2: "selected_directory (missing_dir_app\<lparr>dry_run_var := True\<rparr>) = Some [''d''] \<and>
     dry_run_var (missing_dir_app\<lparr>dry_run_var := True\<rparr>) \<and>
     \<not> isdir (fs (missing_dir_app\<lparr>dry_run_var := True\<rparr>)) [''d'']"
    by code_simp
  note a = organize_requires_selection [of "startup None example_fs", THEN conjunct1,
      rule_format, OF h1]
  note b = organize_requires_selection [of "missing_dir_app\<lparr>dry_run_var := True\<rparr>" "[''d'']",
      THEN conjunct2, rule_format, OF h2]
  from h1 a h2 b show ?thesis by blast
qed

section \<open>Properties of the file system\<close>

declare makedirs.simps [simp del]











section \<open>Properties of the loops of organize\_files\<close>

subsection \<open>The loop over the categories\<close>





subsection \<open>The loop over the names\<close>











subsection \<open>Dry run against real run\<close>




subsection \<open>Creating the folders\<close>






section \<open>Properties of the dry run and of failed moves\<close>








text \<open>
  Claim C4 (the code departs from it). The move of \<open>x.txt\<close> into \<open>Docs\<close> fails and is
  reported; the \<open>continue\<close> of line 226 then goes on with the next category, not the
  next file: \<open>x.txt\<close> is moved into \<open>Text\<close>, a record of that move is in the batch, and
  the file is no longer in its place.
\<close>

theorem failed_move_falls_through:
  "selected_directory overlap_app = Some [''d''] \<and> \<not> dry_run_var overlap_app \<and>
   fst (organize_files overlap_app) = None \<and>
   output_text (snd (organize_files overlap_app)) =
     [Created_folder ''Text'', No_category_found ''Docs'',
      Error_moving ''x.txt'' NotADirectoryError, Total_files_organized 1,
      Organized_into_categories, Category_files ''Text'' 1] \<and>
   undo_stack (snd (organize_files overlap_app)) =
     [[([''d'', ''x.txt''], [''d'', ''Text'', ''x.txt''])]] \<and>
   \<not> path_exists (fs (snd (organize_files overlap_app))) [''d'', ''x.txt''] \<and>
   node_at (fs (snd (organize_files overlap_app))) [''d'', ''Text'', ''x.txt''] = Some (File ''X'')"
  by code_simp

section \<open>Properties of organize followed by undo\<close>
















end
